theory Spec2Isabelle
  imports Complex_Main "HOL-Library.Log_Nat"
begin

section \<open>InveSim: the game-play page (src/app/game/play/page.tsx)\<close>

text \<open>
  The page is a React component over an external store (\<open>useGameStore\<close>). It reads a
  snapshot of the store, keeps some state of its own (\<open>useState\<close>) and reacts to clicks
  and to changes of the snapshot (\<open>useEffect\<close>). The embedding follows that shape:

  \<^item> the snapshot of the store and the component's own state are records;
  \<^item> a click handler is a function from the snapshot and its arguments to the list of
    effects it performs, in the order of the source: store actions it dispatches, timers
    it sets, toasts it shows and local state it sets. A handler that returns early
    returns the effects performed so far;
  \<^item> an effect hook is a function on the component's state, run once per render;
  \<^item> the store's actions are not part of this file of the repository: what an action
    does to the store is a parameter (a reducer) wherever a statement needs it. The one
    exception is \<open>payExpenseWithCash\<close>, which is modelled from the spec.

  JavaScript numbers are modelled as real numbers. In the handlers the arithmetic is
  exact. In the clock, whose floors turn a rounding error into another month, every
  quotient and product is rounded to a double by \<open>fl\<close>. Where the source divides by a
  value that may be zero, the quotient is a \<open>number\<close>, which is a real, an infinity or
  \<open>NaN\<close>, and what JavaScript does with it is written out.
\<close>

subsection \<open>Numbers\<close>

datatype number = Finite real | PosInfinity | NegInfinity | NaN

text \<open>\<open>x / y\<close> on finite numbers.\<close>

definition jsDivide :: "real \<Rightarrow> real \<Rightarrow> number" where
  "jsDivide x y =
     (if y \<noteq> 0 then Finite (x / y)
      else if x > 0 then PosInfinity
      else if x < 0 then NegInfinity
      else NaN)"

text \<open>\<open>Math.floor\<close>, which leaves the infinities and \<open>NaN\<close> as they are.\<close>

fun mathFloor :: "number \<Rightarrow> number" where
  "mathFloor (Finite x) = Finite (of_int \<lfloor>x\<rfloor>)"
| "mathFloor PosInfinity = PosInfinity"
| "mathFloor NegInfinity = NegInfinity"
| "mathFloor NaN = NaN"

text \<open>\<open>q > n\<close> for a finite \<open>q\<close>: every comparison with \<open>NaN\<close> is false.\<close>

fun jsGreater :: "real \<Rightarrow> number \<Rightarrow> bool" where
  "jsGreater q (Finite x) = (q > x)"
| "jsGreater q PosInfinity = False"
| "jsGreater q NegInfinity = True"
| "jsGreater q NaN = False"

text \<open>\<open>n * c\<close> for a finite positive \<open>c\<close>.\<close>

fun jsTimes :: "number \<Rightarrow> real \<Rightarrow> number" where
  "jsTimes (Finite x) c = Finite (x * c)"
| "jsTimes n c = n"

subsection \<open>Doubles\<close>

text \<open>
  A double is an integer of at most 53 bits times a power of two whose exponent is at
  least -1074. The result of an operation is the exact result rounded to the nearest
  double, and to the one with the even integer when two are equally near. The clock
  stays far below the largest double, so that overflow is left out.
\<close>

text \<open>The nearest integer, the even one of two that are equally near.\<close>

definition roundHalfEven :: "real \<Rightarrow> int" where
  "roundHalfEven x =
     (let f = \<lfloor>x\<rfloor>; r = x - of_int f
      in if r < 1 / 2 then f
         else if 1 / 2 < r then f + 1
         else if even f then f else f + 1)"

text \<open>For a positive \<open>x\<close>, the \<open>e\<close> with \<open>2 ^ e \<le> x < 2 ^ (e + 1)\<close>.\<close>

definition exponent :: "real \<Rightarrow> int" where
  "exponent x = (if 1 \<le> x then bitlen \<lfloor>x\<rfloor> - 1 else - bitlen (\<lceil>1 / x\<rceil> - 1))"

text \<open>The distance between the doubles around a positive \<open>x\<close>.\<close>

definition ulp :: "real \<Rightarrow> real" where
  "ulp x = 2 powi (max (exponent x - 52) (- 1074))"

definition fl :: "real \<Rightarrow> real" where
  "fl x =
     (if x = 0 then 0
      else if 0 < x then of_int (roundHalfEven (x / ulp x)) * ulp x
      else - (of_int (roundHalfEven (- x / ulp (- x))) * ulp (- x)))"

subsection \<open>Data read from the store\<close>

type_synonym Asset = string

text \<open>\<open>GameEvent\<close> is imported from the store; the page reads these four fields.\<close>

datatype EventType = income | expense

record GameEvent =
  title :: string
  description :: string
  cost :: real
  type :: EventType

text \<open>
  An entry of \<open>stocks\<close>, \<open>cryptos\<close> or \<open>realEstates\<close>. The handlers read its \<open>name\<close>
  (here \<open>instrumentName\<close>, as \<open>name\<close> is also a field of an investment option) and its
  \<open>currentPrice\<close>.
\<close>

record Instrument =
  instrumentName :: string
  currentPrice :: real

record Store =
  gameTime :: real
  cash :: real
  netWorth :: real
  aiNetWorth :: real
  investments :: "Asset \<rightharpoonup> real"
  investmentProfits :: "Asset \<rightharpoonup> real"
  stocks :: "string \<rightharpoonup> Instrument"
  cryptos :: "string \<rightharpoonup> Instrument"
  realEstates :: "string \<rightharpoonup> Instrument"
  stockQuantities :: "string \<rightharpoonup> real"
  cryptoQuantities :: "string \<rightharpoonup> real"
  realEstateQuantities :: "string \<rightharpoonup> real"
  isGameOver :: bool
  currentEvent :: "GameEvent option"
  showEventModal :: bool
  difficulty :: string

text \<open>A snapshot with no cash, no holdings and no event, from which examples are built.\<close>

definition emptyStore :: Store where
  "emptyStore =
     \<lparr> gameTime = 0, cash = 0, netWorth = 0, aiNetWorth = 0,
       investments = Map.empty, investmentProfits = Map.empty,
       stocks = Map.empty, cryptos = Map.empty, realEstates = Map.empty,
       stockQuantities = Map.empty, cryptoQuantities = Map.empty,
       realEstateQuantities = Map.empty,
       isGameOver = False, currentEvent = None, showEventModal = False,
       difficulty = ''easy'' \<rparr>"

text \<open>\<open>m[k] || 0\<close>: a missing entry (and the entry 0) reads as 0.\<close>

definition orZero :: "real option \<Rightarrow> real" where
  "orZero v = (case v of None \<Rightarrow> 0 | Some x \<Rightarrow> x)"

subsection \<open>Effects of a handler\<close>

text \<open>The actions of the store that the page dispatches.\<close>

datatype action =
    Invest Asset real
  | Withdraw Asset real
  | BuyStock string real
  | SellStock string real
  | BuyCrypto string real
  | SellCrypto string real
  | BuyRealEstate string real
  | SellRealEstate string real
  | UpdateNetWorth
  | PayExpenseWithCash GameEvent

text \<open>
  A toast carries the text of the source without its leading emoji and without the
  currency sign. A success text is kept as the source's template: \<open>formatCurrency\<close>
  is outside this file.
\<close>

datatype toast = Error string | Success string

datatype effect =
    Dispatch action
  | SetTimeout "action list" nat
  | Toast toast
  | SetAmounts Asset real
  | SetStockBuyQuantities string real
  | SetCryptoBuyQuantities string real
  | SetRealEstateBuyQuantities string real
  | SetShowInvestmentSelector bool



text \<open>A handler that did nothing but report an error.\<close>

fun rejected :: "effect list \<Rightarrow> bool" where
  "rejected [Toast (Error msg)] = True"
| "rejected es = False"


subsection \<open>Fixed-rate investments\<close>

definition getTotalValue :: "Store \<Rightarrow> Asset \<Rightarrow> real" where
  "getTotalValue s asset =
     (let principal = orZero (investments s asset);
          profits = orZero (investmentProfits s asset)
      in principal + profits)"

definition getProfitPercentage :: "Store \<Rightarrow> Asset \<Rightarrow> number" where
  "getProfitPercentage s asset =
     (let principal = orZero (investments s asset);
          profits = orZero (investmentProfits s asset)
      in if principal = 0 then Finite 0 else jsTimes (jsDivide profits principal) 100)"



subsection \<open>Priced instruments\<close>


definition handleStockSell :: "Store \<Rightarrow> string \<Rightarrow> real \<Rightarrow> effect list" where
  "handleStockSell s stockSymbol quantity =
     (case stocks s stockSymbol of
        None \<Rightarrow> [Toast (Error ''Invalid stock or quantity!'')]
      | Some stock \<Rightarrow>
          if quantity \<le> 0 then [Toast (Error ''Invalid stock or quantity!'')]
          else let totalValue = getTotalValue s stockSymbol;
                   currentShares = mathFloor (jsDivide totalValue (currentPrice stock))
               in if jsGreater quantity currentShares
                  then [Toast (Error ''You don't own enough shares!'')]
                  else [Dispatch (SellStock stockSymbol quantity),
                        SetStockBuyQuantities stockSymbol 0,
                        Toast (Success ''Sold ${quantity} shares of ${stock.name} for ${formatCurrency(saleValue)}'')])"

definition getOwnedShares :: "Store \<Rightarrow> string \<Rightarrow> real" where
  "getOwnedShares s stockSymbol = orZero (stockQuantities s stockSymbol)"


definition handleCryptoSell :: "Store \<Rightarrow> string \<Rightarrow> real \<Rightarrow> effect list" where
  "handleCryptoSell s cryptoSymbol quantity =
     (case cryptos s cryptoSymbol of
        None \<Rightarrow> [Toast (Error ''Invalid crypto or quantity!'')]
      | Some crypto \<Rightarrow>
          if quantity \<le> 0 then [Toast (Error ''Invalid crypto or quantity!'')]
          else let totalValue = getTotalValue s cryptoSymbol;
                   currentCoins = mathFloor (jsDivide totalValue (currentPrice crypto))
               in if jsGreater quantity currentCoins
                  then [Toast (Error ''You don't own enough crypto!'')]
                  else [Dispatch (SellCrypto cryptoSymbol quantity),
                        SetCryptoBuyQuantities cryptoSymbol 0,
                        Toast (Success ''Sold ${quantity} ${crypto.name} for ${formatCurrency(saleValue)}'')])"

definition getOwnedCoins :: "Store \<Rightarrow> string \<Rightarrow> real" where
  "getOwnedCoins s cryptoSymbol = orZero (cryptoQuantities s cryptoSymbol)"


definition handleRealEstateSell :: "Store \<Rightarrow> string \<Rightarrow> real \<Rightarrow> effect list" where
  "handleRealEstateSell s realEstateSymbol quantity =
     (case realEstates s realEstateSymbol of
        None \<Rightarrow> [Toast (Error ''Invalid real estate property or quantity!'')]
      | Some realEstate \<Rightarrow>
          if quantity \<le> 0 then [Toast (Error ''Invalid real estate property or quantity!'')]
          else let totalValue = getTotalValue s realEstateSymbol;
                   currentProperties = mathFloor (jsDivide totalValue (currentPrice realEstate))
               in if jsGreater quantity currentProperties
                  then [Toast (Error ''You don't own enough properties!'')]
                  else [Dispatch (SellRealEstate realEstateSymbol quantity),
                        SetRealEstateBuyQuantities realEstateSymbol 0,
                        Toast (Success ''Sold ${quantity} ${realEstate.name} for ${formatCurrency(saleValue)}'')])"

definition getOwnedProperties :: "Store \<Rightarrow> string \<Rightarrow> real" where
  "getOwnedProperties s realEstateSymbol = orZero (realEstateQuantities s realEstateSymbol)"

subsection \<open>Settling an expense event\<close>


text \<open>
  The click handler of the button "Pay with Cash" of the expense modal:
  \<open>currentEvent && payExpenseWithCash(currentEvent)\<close>.
\<close>

definition payWithCashClick :: "Store \<Rightarrow> effect list" where
  "payWithCashClick s =
     (case currentEvent s of
        None \<Rightarrow> []
      | Some e \<Rightarrow> [Dispatch (PayExpenseWithCash e)])"

text \<open>
  Modelled from the spec: the store's action \<open>payExpenseWithCash\<close> (in \<open>@/lib/store\<close>, which
  is not among the source files). The spec, section 4.5: "\<open>payWithCash(event)\<close> deducts
  \<open>event.cost\<close> from cash unconditionally (cash may go negative -- debt is permitted, not
  an error) and clears the outstanding event."
\<close>

definition payExpenseWithCash :: "GameEvent \<Rightarrow> Store \<Rightarrow> Store" where
  "payExpenseWithCash event s = s\<lparr>cash := cash s - cost event, currentEvent := None\<rparr>"

subsection \<open>The clock shown by the page\<close>







subsection \<open>The component's own state and the year boundary\<close>

record InvestmentOption =
  name :: string
  asset :: Asset
  baseReturnRate :: real

definition baseInvestmentOptions :: "InvestmentOption list" where
  "baseInvestmentOptions =
     [\<lparr>name = ''Savings'', asset = ''savings'', baseReturnRate = 4\<rparr>,
      \<lparr>name = ''Fixed Deposit'', asset = ''fixedDeposit'', baseReturnRate = 6\<rparr>,
      \<lparr>name = ''Nifty 50'', asset = ''nifty50'', baseReturnRate = 10\<rparr>,
      \<lparr>name = ''Gold'', asset = ''gold'', baseReturnRate = 8\<rparr>]"

record Local =
  investmentOptions :: "InvestmentOption list"
  previousRates :: "Asset \<rightharpoonup> real"
  currentYear :: int
  showGameOverModal :: bool

definition initialLocal :: Local where
  "initialLocal =
     \<lparr> investmentOptions = baseInvestmentOptions, previousRates = Map.empty,
       currentYear = 0, showGameOverModal = False \<rparr>"

text \<open>
  \<open>Math.random\<close> is called once for each option, in the order of the list: \<open>random i\<close>
  is the draw for the option at index \<open>i\<close>.
\<close>

definition updateInvestmentRates :: "(nat \<Rightarrow> real) \<Rightarrow> Local \<Rightarrow> Local" where
  "updateInvestmentRates random l =
     l\<lparr> previousRates :=
          foldl (\<lambda>acc option. acc(asset option \<mapsto> baseReturnRate option))
            Map.empty (investmentOptions l),
        investmentOptions :=
          map (\<lambda>(i, option).
                 let change = (random i - 0.5) * 0.2
                 in option\<lparr>baseReturnRate := max 0 (baseReturnRate option * (1 + change))\<rparr>)
            (enumerate 0 (investmentOptions l)) \<rparr>"

text \<open>
  The effect of lines 152 to 157, run in a render whose derived year is \<open>yr\<close>. The
  number paired with the state counts the calls of \<open>updateInvestmentRates\<close>; the draws of
  the \<open>k\<close>-th call are \<open>randoms k\<close>.
\<close>

definition yearEffect :: "(nat \<Rightarrow> nat \<Rightarrow> real) \<Rightarrow> int \<Rightarrow> nat \<times> Local \<Rightarrow> nat \<times> Local" where
  "yearEffect randoms yr kl =
     (case kl of (k, l) \<Rightarrow>
        if yr > currentYear l
        then (Suc k, (updateInvestmentRates (randoms k) l)\<lparr>currentYear := yr\<rparr>)
        else (k, l))"

text \<open>The effect over the successive renders of the page, given the year of each.\<close>

fun yearEffects :: "(nat \<Rightarrow> nat \<Rightarrow> real) \<Rightarrow> int list \<Rightarrow> nat \<times> Local \<Rightarrow> nat \<times> Local" where
  "yearEffects randoms [] kl = kl"
| "yearEffects randoms (yr # yrs) kl = yearEffects randoms yrs (yearEffect randoms yr kl)"

text \<open>
  The year boundaries crossed by a run of renders that starts in year \<open>y\<close>: going from
  year \<open>a\<close> to a later year \<open>b\<close> crosses \<open>b - a\<close> of them.
\<close>

fun boundariesCrossed :: "int \<Rightarrow> int list \<Rightarrow> nat" where
  "boundariesCrossed y [] = 0"
| "boundariesCrossed y (yr # yrs) = nat (yr - y) + boundariesCrossed (max y yr) yrs"

text \<open>A run of renders in which the year never decreases and never grows by more than one.\<close>

fun stepwise :: "int \<Rightarrow> int list \<Rightarrow> bool" where
  "stepwise y [] = True"
| "stepwise y (yr # yrs) = (y \<le> yr \<and> yr \<le> y + 1 \<and> stepwise yr yrs)"

subsection \<open>The end of the game\<close>

record GameResult =
  userId :: string
  date :: string
  playerScore :: real
  aiScore :: real
  result :: string
  difficulty :: string

text \<open>
  \<open>localStorage\<close>: under each key, what \<open>JSON.parse\<close> makes of the stored text, either an
  array of results or something on which \<open>JSON.parse\<close> or \<open>push\<close> throws. A missing key
  and an empty text both read as no results. \<open>setItemThrows\<close> stands for a storage that
  refuses the write (its quota is exceeded, or it is disabled).
\<close>

datatype Stored = NotAnArray | Results "GameResult list"

record LocalStorage =
  items :: "string \<rightharpoonup> Stored"
  setItemThrows :: bool

text \<open>
  What the \<open>try\<close> block reads under the key: the results stored so far, or nothing when
  \<open>JSON.parse\<close> or \<open>push\<close> throws.
\<close>

fun existingResults :: "Stored option \<Rightarrow> GameResult list option" where
  "existingResults None = Some []"
| "existingResults (Some NotAnArray) = None"
| "existingResults (Some (Results rs)) = Some rs"

text \<open>
  \<open>user\<close> is the id of the signed-in user, if any; \<open>now\<close> is \<open>new Date().toISOString()\<close>.
  The function returns the storage and the toast it shows, if any.
\<close>

definition saveGameResults ::
  "string option \<Rightarrow> string \<Rightarrow> Store \<Rightarrow> LocalStorage \<Rightarrow> LocalStorage \<times> toast list" where
  "saveGameResults user now s ls =
     (case user of
        None \<Rightarrow> (ls, [])
      | Some uid \<Rightarrow>
          (let playerWon = netWorth s > aiNetWorth s;
               gameResult =
                 \<lparr> userId = uid, date = now, playerScore = netWorth s,
                   aiScore = aiNetWorth s,
                   result = (if playerWon then ''win'' else ''loss''),
                   difficulty = Store.difficulty s \<rparr>;
               userResultsKey = ''gameResults_'' @ uid
           in (case existingResults (items ls userResultsKey) of
                 None \<Rightarrow> (ls, [Error ''Failed to save game results''])
               | Some results \<Rightarrow>
                   (if setItemThrows ls
                    then (ls, [Error ''Failed to save game results''])
                    else (ls\<lparr>items := (items ls)(userResultsKey \<mapsto> Results (results @ [gameResult]))\<rparr>,
                          [Success ''Game results saved! You ${playerWon ? won : lost} with ${formatCurrency(netWorth)} vs AI's ${formatCurrency(aiNetWorth)}''])))))"

text \<open>The effect of lines 116 to 121, run in a render with the snapshot \<open>s\<close>.\<close>

definition gameOverEffect ::
  "string option \<Rightarrow> string \<Rightarrow> Store \<Rightarrow> Local \<times> LocalStorage \<Rightarrow> Local \<times> LocalStorage" where
  "gameOverEffect user now s lls =
     (case lls of (l, ls) \<Rightarrow>
        if isGameOver s \<and> \<not> showGameOverModal l
        then (l\<lparr>showGameOverModal := True\<rparr>, fst (saveGameResults user now s ls))
        else (l, ls))"

text \<open>The effect over the successive renders, each with its time and its snapshot.\<close>

fun gameOverEffects ::
  "string option \<Rightarrow> (string \<times> Store) list \<Rightarrow> Local \<times> LocalStorage \<Rightarrow> Local \<times> LocalStorage" where
  "gameOverEffects user [] lls = lls"
| "gameOverEffects user ((now, s) # renders) lls =
     gameOverEffects user renders (gameOverEffect user now s lls)"

subsection \<open>Snapshots used in the examples\<close>

text \<open>
  A player with cash 500, 500 in savings with a profit of 20, and half a coin of BTC bought
  for 1000 at the price of 2000; a stock at 100, a coin at 2000 and a property at 400 are
  on the market.
\<close>

definition holdingStore :: Store where
  "holdingStore =
     emptyStore\<lparr> cash := 500,
       investments := [''savings'' \<mapsto> 500, ''BTC'' \<mapsto> 1000],
       investmentProfits := [''savings'' \<mapsto> 20],
       stocks := [''XYZ'' \<mapsto> \<lparr>instrumentName = ''Xyz Ltd'', currentPrice = 100\<rparr>],
       cryptos := [''BTC'' \<mapsto> \<lparr>instrumentName = ''Bitcoin'', currentPrice = 2000\<rparr>],
       realEstates := [''FLAT'' \<mapsto> \<lparr>instrumentName = ''City Flat'', currentPrice = 400\<rparr>],
       cryptoQuantities := [''BTC'' \<mapsto> 1 / 2] \<rparr>"


text \<open>An expense of 20000 is outstanding; the player has 5000 in cash and 30000 in savings.\<close>

definition emergency :: GameEvent where
  "emergency = \<lparr> title = ''Medical Emergency'', description = ''A hospital bill'',
                 cost = 20000, type = expense \<rparr>"

definition emergencyStore :: Store where
  "emergencyStore =
     emptyStore\<lparr> cash := 5000, investments := [''savings'' \<mapsto> 30000],
       currentEvent := Some emergency, showEventModal := True \<rparr>"

text \<open>The game is over and the player is ahead of the AI.\<close>

definition finishedStore :: Store where
  "finishedStore =
     emptyStore\<lparr> isGameOver := True, netWorth := 120000, aiNetWorth := 100000 \<rparr>"

definition emptyStorage :: LocalStorage where
  "emptyStorage = \<lparr> items = Map.empty, setItemThrows = False \<rparr>"

section \<open>Facts about the examples and the effects\<close>

lemma holdingStore_fields:
  "cash holdingStore = 500"
  "orZero (investments holdingStore ''savings'') = 500"
  "orZero (investmentProfits holdingStore ''savings'') = 20"
  "orZero (investments holdingStore ''BTC'') = 1000"
  "orZero (investmentProfits holdingStore ''BTC'') = 0"
  "stocks holdingStore ''XYZ'' = Some \<lparr>instrumentName = ''Xyz Ltd'', currentPrice = 100\<rparr>"
  "cryptos holdingStore ''BTC'' = Some \<lparr>instrumentName = ''Bitcoin'', currentPrice = 2000\<rparr>"
  "realEstates holdingStore ''FLAT'' = Some \<lparr>instrumentName = ''City Flat'', currentPrice = 400\<rparr>"
  "orZero (cryptoQuantities holdingStore ''BTC'') = 1 / 2"
  by (simp_all add: holdingStore_def emptyStore_def orZero_def)


lemma emergencyStore_fields:
  "cash emergencyStore = 5000"
  "orZero (investments emergencyStore ''savings'') = 30000"
  "orZero (investmentProfits emergencyStore ''savings'') = 0"
  "currentEvent emergencyStore = Some emergency"
  "cost emergency = 20000"
  by (simp_all add: emergencyStore_def emergency_def emptyStore_def orZero_def)


section \<open>Profit percentage\<close>

text \<open>
  C10. \<open>getProfitPercentage\<close> returns a finite number for every store and asset: 0 when
  the asset has no principal or the principal 0, so that the division is never made with
  a zero divisor, and otherwise the profits of the asset (0 when it has none) divided by
  the principal, times 100.
\<close>

theorem getProfitPercentage_total:
  "getProfitPercentage s a =
     Finite (case investments s a of
               None \<Rightarrow> 0
             | Some p \<Rightarrow>
                 if p = 0 then 0
                 else (case investmentProfits s a of None \<Rightarrow> 0 | Some q \<Rightarrow> q) / p * 100)"
  by (simp add: getProfitPercentage_def jsDivide_def orZero_def Let_def
        split: option.split)

text \<open>
  A principal of 500 with a profit of 20 gives 4 percent; an asset that is not held gives
  0; and so does a principal of 0, whatever the profit.
\<close>

theorem getProfitPercentage_total_witness:
  "getProfitPercentage holdingStore ''savings'' = Finite 4
   \<and> getProfitPercentage holdingStore ''gold'' = Finite 0
   \<and> getProfitPercentage
         (emptyStore\<lparr>investments := [''gold'' \<mapsto> 0], investmentProfits := [''gold'' \<mapsto> 7]\<rparr>)
         ''gold'' = Finite 0"
proof -
  have held: "investments holdingStore ''savings'' = Some 500"
    "investmentProfits holdingStore ''savings'' = Some 20"
    "investments holdingStore ''gold'' = None"
    by (simp_all add: holdingStore_def emptyStore_def)
  have 1: "getProfitPercentage holdingStore ''savings'' = Finite 4"
    using getProfitPercentage_total [of holdingStore "''savings''"] by (simp add: held)
  have 2: "getProfitPercentage holdingStore ''gold'' = Finite 0"
    using getProfitPercentage_total [of holdingStore "''gold''"] by (simp add: held)
  have 3: "getProfitPercentage
         (emptyStore\<lparr>investments := [''gold'' \<mapsto> 0], investmentProfits := [''gold'' \<mapsto> 7]\<rparr>)
         ''gold'' = Finite 0"
    using getProfitPercentage_total
      [of "emptyStore\<lparr>investments := [''gold'' \<mapsto> 0], investmentProfits := [''gold'' \<mapsto> 7]\<rparr>"
          "''gold''"]
    by simp
  from 1 2 3 show ?thesis by blast
qed

section \<open>Withdrawing from an investment\<close>



section \<open>Investing and buying\<close>









section \<open>Selling a priced instrument\<close>

text \<open>
  What the three sell handlers decide, for an instrument on the market and a positive
  quantity: the sale is refused exactly when the quantity is greater than the floor of
  total value over price. The quantity maps are not read.
\<close>

lemma handleStockSell_guard:
  "stocks s symbol = Some i \<Longrightarrow> 0 < q \<Longrightarrow>
   handleStockSell s symbol q =
     (if jsGreater q (mathFloor (jsDivide (getTotalValue s symbol) (currentPrice i)))
      then [Toast (Error ''You don't own enough shares!'')]
      else [Dispatch (SellStock symbol q), SetStockBuyQuantities symbol 0,
            Toast (Success ''Sold ${quantity} shares of ${stock.name} for ${formatCurrency(saleValue)}'')])"
  by (simp add: handleStockSell_def Let_def)

lemma handleCryptoSell_guard:
  "cryptos s symbol = Some i \<Longrightarrow> 0 < q \<Longrightarrow>
   handleCryptoSell s symbol q =
     (if jsGreater q (mathFloor (jsDivide (getTotalValue s symbol) (currentPrice i)))
      then [Toast (Error ''You don't own enough crypto!'')]
      else [Dispatch (SellCrypto symbol q), SetCryptoBuyQuantities symbol 0,
            Toast (Success ''Sold ${quantity} ${crypto.name} for ${formatCurrency(saleValue)}'')])"
  by (simp add: handleCryptoSell_def Let_def)

lemma handleRealEstateSell_guard:
  "realEstates s symbol = Some i \<Longrightarrow> 0 < q \<Longrightarrow>
   handleRealEstateSell s symbol q =
     (if jsGreater q (mathFloor (jsDivide (getTotalValue s symbol) (currentPrice i)))
      then [Toast (Error ''You don't own enough properties!'')]
      else [Dispatch (SellRealEstate symbol q), SetRealEstateBuyQuantities symbol 0,
            Toast (Success ''Sold ${quantity} ${realEstate.name} for ${formatCurrency(saleValue)}'')])"
  by (simp add: handleRealEstateSell_def Let_def)

text \<open>
  The floor agrees with the quantity map where the price is positive, the total value is
  the price times the owned quantity, and that quantity is a whole number.
\<close>

lemma floor_of_whole_holding:
  fixes p :: real
  assumes "0 < p"
  shows "jsGreater q (mathFloor (jsDivide (p * of_int n) p)) \<longleftrightarrow> q > of_int n"
  using assms by (simp add: jsDivide_def)

lemma handleCryptoSell_whole_coins:
  assumes "cryptos s symbol = Some i" "0 < q" "0 < currentPrice i"
    "getTotalValue s symbol = currentPrice i * getOwnedCoins s symbol"
    "getOwnedCoins s symbol = of_int n"
  shows "rejected (handleCryptoSell s symbol q) \<longleftrightarrow> q > getOwnedCoins s symbol"
  using assms floor_of_whole_holding [of "currentPrice i" q n]
  by (simp add: handleCryptoSell_guard)

text \<open>
  C1, at an input on which the code and the claim differ. The player owns half a coin of
  BTC, as \<open>cryptoQuantities\<close> records, worth 1000 at the price of 2000. Selling that half
  coin does not exceed the owned quantity, yet \<open>handleCryptoSell\<close> refuses it with
  "You don't own enough crypto!": it compares the quantity with the floor of 1000 / 2000,
  which is 0.
\<close>

theorem handleCryptoSell_owned_fraction:
  "cryptos holdingStore ''BTC'' = Some \<lparr>instrumentName = ''Bitcoin'', currentPrice = 2000\<rparr>
   \<and> getOwnedCoins holdingStore ''BTC'' = 1 / 2
   \<and> getTotalValue holdingStore ''BTC'' = 2000 * (1 / 2)
   \<and> handleCryptoSell holdingStore ''BTC'' (1 / 2) = [Toast (Error ''You don't own enough crypto!'')]"
  by (simp add: handleCryptoSell_def getOwnedCoins_def getTotalValue_def jsDivide_def
        holdingStore_fields)

section \<open>Settling an expense\<close>

text \<open>
  C5. With an expense event outstanding, the button "Pay with Cash" dispatches
  \<open>payExpenseWithCash\<close> with that event, whatever the cash: the handler does not read
  the cash. By the store's action as the spec describes it, the cash then falls by the
  full cost and the event is cleared; when the cash was less than the cost it becomes
  negative.
\<close>

theorem payWithCash_unconditional:
  "currentEvent s = Some e \<Longrightarrow>
     payWithCashClick s = [Dispatch (PayExpenseWithCash e)]
     \<and> cash (payExpenseWithCash e s) = cash s - cost e
     \<and> currentEvent (payExpenseWithCash e s) = None
     \<and> (cash s < cost e \<longrightarrow> cash (payExpenseWithCash e s) < 0)"
  by (simp add: payWithCashClick_def payExpenseWithCash_def)

text \<open>The scenario of the spec: a cost of 20000 paid from a cash of 5000 leaves -15000.\<close>

theorem payWithCash_unconditional_witness:
  "payWithCashClick emergencyStore = [Dispatch (PayExpenseWithCash emergency)]
   \<and> cash (payExpenseWithCash emergency emergencyStore) = - 15000
   \<and> currentEvent (payExpenseWithCash emergency emergencyStore) = None
   \<and> cash (payExpenseWithCash emergency emergencyStore) < 0"
proof -
  have ev: "currentEvent emergencyStore = Some emergency"
    by (simp add: emergencyStore_fields)
  have short: "cash emergencyStore < cost emergency"
    by (simp add: emergencyStore_fields)
  from payWithCash_unconditional [OF ev] short show ?thesis
    by (simp add: emergencyStore_fields)
qed



section \<open>Rounding to a double\<close>


lemma roundHalfEven_of_int [simp]: "roundHalfEven (of_int n) = n"
  by (simp add: roundHalfEven_def)




lemma exponent_bounds:
  assumes "0 < x"
  shows "2 powi exponent x \<le> x \<and> x < 2 powi (exponent x + 1)"
proof (cases "1 \<le> x")
  case True
  define n where "n = \<lfloor>x\<rfloor>"
  have n: "0 < n" "of_int n \<le> x" "x < of_int n + 1"
    using True by (simp_all add: n_def)
  define b where "b = bitlen n"
  from bitlen_bounds [OF n(1)] have lo: "2 ^ nat (b - 1) \<le> n" and hi: "n < 2 ^ nat b"
    by (simp_all add: b_def)
  have b1: "1 \<le> b" using n(1) bitlen_eq_zero_iff [of n] bitlen_nonneg [of n]
    by (simp add: b_def)
  have e: "exponent x = b - 1" using True by (simp add: exponent_def n_def b_def)
  have "(2::real) powi (b - 1) = of_int (2 ^ nat (b - 1))"
    using b1 by (simp add: power_int_nonneg_exp)
  also have "\<dots> \<le> of_int n" using lo by (simp only: of_int_le_iff)
  finally have 1: "2 powi (b - 1) \<le> x" using n(2) by linarith
  have "n + 1 \<le> 2 ^ nat b" using hi by simp
  then have "of_int (n + 1) \<le> (of_int (2 ^ nat b) :: real)" by (simp only: of_int_le_iff)
  then have "x < 2 powi b" using n(3) b1 by (simp add: power_int_nonneg_exp)
  with 1 show ?thesis by (simp add: e)
next
  case False
  with assms have x1: "x < 1" by simp
  define y where "y = 1 / x"
  have y1: "1 < y" using assms x1 by (simp add: y_def)
  define n where "n = \<lceil>y\<rceil> - 1"
  have n: "0 < n" "of_int n < y" "y \<le> of_int n + 1"
    using y1 by (simp_all add: n_def less_ceiling_iff) linarith+
  define b where "b = bitlen n"
  from bitlen_bounds [OF n(1)] have lo: "2 ^ nat (b - 1) \<le> n" and hi: "n < 2 ^ nat b"
    by (simp_all add: b_def)
  have b1: "1 \<le> b" using n(1) bitlen_eq_zero_iff [of n] bitlen_nonneg [of n]
    by (simp add: b_def)
  have e: "exponent x = - b" using False by (simp add: exponent_def n_def b_def y_def)
  have "n + 1 \<le> 2 ^ nat b" using hi by simp
  then have "of_int (n + 1) \<le> (of_int (2 ^ nat b) :: real)" by (simp only: of_int_le_iff)
  then have "y \<le> 2 powi b" using n(3) b1 by (simp add: power_int_nonneg_exp)
  then have "1 / x \<le> 2 powi b" by (simp add: y_def)
  then have "1 / 2 powi b \<le> x" using assms by (simp add: field_simps)
  then have 1: "2 powi (- b) \<le> x"
    by (simp only: power_int_minus_divide)
  have "(2::real) powi (b - 1) = of_int (2 ^ nat (b - 1))"
    using b1 by (simp add: power_int_nonneg_exp)
  also have "\<dots> \<le> of_int n" using lo by (simp only: of_int_le_iff)
  finally have "2 powi (b - 1) < 1 / x" using n(2) by (simp add: y_def)
  then have "x < 1 / 2 powi (b - 1)" using assms by (simp add: field_simps)
  also have "1 / (2::real) powi (b - 1) = 2 powi (- (b - 1))"
    by (rule power_int_minus_divide [symmetric])
  also have "- (b - 1) = - b + 1" by simp
  finally have 2: "x < 2 powi (- b + 1)" .
  from 1 2 show ?thesis by (simp add: e)
qed

lemma exponent_unique:
  assumes "0 < x" "2 powi e \<le> x" "x < 2 powi (e + 1)"
  shows "exponent x = e"
proof (rule antisym)
  show "exponent x \<le> e"
  proof (rule ccontr)
    assume "\<not> exponent x \<le> e"
    then have "e + 1 \<le> exponent x" by simp
    then have "(2::real) powi (e + 1) \<le> 2 powi exponent x"
      by (rule power_int_increasing) simp
    with exponent_bounds [OF assms(1)] assms(3) show False by linarith
  qed
  show "e \<le> exponent x"
  proof (rule ccontr)
    assume "\<not> e \<le> exponent x"
    then have "exponent x + 1 \<le> e" by simp
    then have "(2::real) powi (exponent x + 1) \<le> 2 powi e"
      by (rule power_int_increasing) simp
    with exponent_bounds [OF assms(1)] assms(2) show False by linarith
  qed
qed



lemma fl_pos_eq: "0 < x \<Longrightarrow> fl x = of_int (roundHalfEven (x / ulp x)) * ulp x"
  by (simp add: fl_def)






text \<open>Evaluating at a number whose exponent is given.\<close>

lemma fl_eval:
  assumes "0 < x" "2 powi e \<le> x" "x < 2 powi (e + 1)" "- 1022 \<le> e"
  shows "fl x = of_int (roundHalfEven (x / 2 powi (e - 52))) * 2 powi (e - 52)"
proof -
  have e: "exponent x = e" using assms(1-3) by (rule exponent_unique)
  have "max (e - 52) (- 1074) = e - 52" using assms(4) by linarith
  then have "ulp x = 2 powi (e - 52)" by (simp only: ulp_def e)
  then show ?thesis by (simp only: fl_pos_eq [OF assms(1)])
qed

lemma roundHalfEven_numeral [simp]: "roundHalfEven (numeral n) = numeral n"
  using roundHalfEven_of_int [of "numeral n"] by simp

lemma roundHalfEven_1 [simp]: "roundHalfEven 1 = 1"
  using roundHalfEven_of_int [of 1] by simp




lemma fl_12: "fl 12 = 12"
  using fl_eval [of 12 3] by simp

section \<open>The clock\<close>

















section \<open>The year boundary\<close>

lemma yearEffect_step:
  "fst (yearEffect randoms yr (k, l)) = (if yr > currentYear l then Suc k else k)
   \<and> currentYear (snd (yearEffect randoms yr (k, l))) = max (currentYear l) yr"
  by (simp add: yearEffect_def updateInvestmentRates_def)

lemma yearEffects_at_most_boundaries:
  "fst (yearEffects randoms yrs (k, l)) \<le> k + boundariesCrossed (currentYear l) yrs"
proof (induction yrs arbitrary: k l)
  case Nil
  show ?case by simp
next
  case (Cons yr yrs)
  obtain k' l' where step: "yearEffect randoms yr (k, l) = (k', l')"
    by (cases "yearEffect randoms yr (k, l)")
  from yearEffect_step [of randoms yr k l] step
  have k': "k' = (if yr > currentYear l then Suc k else k)"
    and l': "currentYear l' = max (currentYear l) yr" by simp_all
  have "fst (yearEffects randoms yrs (k', l')) \<le> k' + boundariesCrossed (currentYear l') yrs"
    by (rule Cons.IH)
  moreover have "k' \<le> k + nat (yr - currentYear l)"
    unfolding k' by auto
  ultimately show ?case
    by (simp add: step l')
qed

lemma yearEffects_stepwise:
  "stepwise (currentYear l) yrs \<Longrightarrow>
   fst (yearEffects randoms yrs (k, l)) = k + boundariesCrossed (currentYear l) yrs"
proof (induction yrs arbitrary: k l)
  case Nil
  show ?case by simp
next
  case (Cons yr yrs)
  obtain k' l' where step: "yearEffect randoms yr (k, l) = (k', l')"
    by (cases "yearEffect randoms yr (k, l)")
  from yearEffect_step [of randoms yr k l] step
  have k': "k' = (if yr > currentYear l then Suc k else k)"
    and l': "currentYear l' = max (currentYear l) yr" by simp_all
  from Cons.prems have near: "currentYear l \<le> yr" "yr \<le> currentYear l + 1"
    and rest: "stepwise yr yrs" by simp_all
  from near have cy: "max (currentYear l) yr = yr" by simp
  have "fst (yearEffects randoms yrs (k', l')) = k' + boundariesCrossed (currentYear l') yrs"
    by (rule Cons.IH) (simp add: l' cy rest)
  moreover have "k' = k + nat (yr - currentYear l)"
    unfolding k' using near by auto
  ultimately show ?case
    by (simp add: step l')
qed

text \<open>
  C2, as the code has it. In each render the update of the rates is applied once if the
  derived year is greater than the recorded \<open>currentYear\<close>, which then becomes that
  year, and not at all otherwise. So over any run of renders it is applied at most once
  for each year boundary crossed, and exactly once for each when the year never
  decreases and never grows by more than one from a render to the next.
\<close>

theorem year_boundary_updates:
  "fst (yearEffect randoms yr (k, l)) = (if yr > currentYear l then Suc k else k)
   \<and> currentYear (snd (yearEffect randoms yr (k, l))) = max (currentYear l) yr
   \<and> fst (yearEffects randoms yrs (k, l)) \<le> k + boundariesCrossed (currentYear l) yrs
   \<and> (stepwise (currentYear l) yrs \<longrightarrow>
        fst (yearEffects randoms yrs (k, l)) = k + boundariesCrossed (currentYear l) yrs)"
  using yearEffect_step [of randoms yr k l] yearEffects_at_most_boundaries [of randoms yrs k l]
    yearEffects_stepwise [of l yrs randoms k]
  by blast

text \<open>Seven renders that reach year 3 one year at a time: three updates.\<close>

theorem year_boundary_updates_witness:
  "stepwise (currentYear initialLocal) [0, 0, 1, 1, 2, 3, 3]
   \<and> boundariesCrossed (currentYear initialLocal) [0, 0, 1, 1, 2, 3, 3] = 3
   \<and> fst (yearEffects (\<lambda>k i. 1 / 2) [0, 0, 1, 1, 2, 3, 3] (0, initialLocal)) = 3"
proof -
  have cy: "currentYear initialLocal = 0"
    by (simp add: initialLocal_def)
  have regular: "stepwise (currentYear initialLocal) [0, 0, 1, 1, 2, 3, 3]"
    by (simp add: cy)
  have crossed: "boundariesCrossed (currentYear initialLocal) [0, 0, 1, 1, 2, 3, 3] = 3"
    by (simp add: cy)
  from year_boundary_updates [of "\<lambda>k i. 1 / 2" 0 0 initialLocal "[0, 0, 1, 1, 2, 3, 3]"]
    regular crossed
  show ?thesis by simp
qed

text \<open>
  The claim as it was stated fails when a render skips a year: from year 0 to year 2
  two boundaries are crossed and the rates are updated once.
\<close>

theorem year_jump_counterexample:
  "boundariesCrossed (currentYear initialLocal) [0, 2] = 2
   \<and> fst (yearEffects (\<lambda>k i. 1 / 2) [0, 2] (0, initialLocal)) = 1"
  by (simp add: yearEffect_def initialLocal_def)

section \<open>The yearly change of the rates\<close>

lemma updated_rate:
  assumes "i < length (investmentOptions l)"
  shows "investmentOptions (updateInvestmentRates random l) ! i =
           (investmentOptions l ! i)
             \<lparr>baseReturnRate :=
                max 0 (baseReturnRate (investmentOptions l ! i) * (1 + (random i - 0.5) * 0.2))\<rparr>"
  using assms by (simp add: updateInvestmentRates_def nth_enumerate_eq Let_def)

lemma perturbation_bounds:
  fixes r u :: real
  assumes "0 \<le> r" "0 \<le> u" "u < 1"
  shows "max 0 (r * (1 + (u - 0.5) * 0.2)) = r * (1 + (u - 0.5) * 0.2)"
    and "0.9 * r \<le> r * (1 + (u - 0.5) * 0.2)"
    and "r * (1 + (u - 0.5) * 0.2) \<le> 1.1 * r"
proof -
  have f: "0.9 \<le> 1 + (u - 0.5) * 0.2" "1 + (u - 0.5) * 0.2 \<le> 1.1"
    using assms by (simp_all add: field_simps)
  from mult_left_mono [OF f(1) assms(1)] show "0.9 * r \<le> r * (1 + (u - 0.5) * 0.2)"
    by (simp add: mult.commute)
  from mult_left_mono [OF f(2) assms(1)] show "r * (1 + (u - 0.5) * 0.2) \<le> 1.1 * r"
    by (simp add: mult.commute)
  have "0 \<le> 1 + (u - 0.5) * 0.2"
    using assms by (simp add: field_simps)
  with assms(1) have "0 \<le> r * (1 + (u - 0.5) * 0.2)"
    by (rule mult_nonneg_nonneg)
  then show "max 0 (r * (1 + (u - 0.5) * 0.2)) = r * (1 + (u - 0.5) * 0.2)"
    by simp
qed

text \<open>The effect at the end of the game does not touch the rates.\<close>

lemma gameOverEffect_rates:
  "investmentOptions (fst (gameOverEffect user now s (l, ls))) = investmentOptions l"
  by (simp add: gameOverEffect_def)

text \<open>
  C7. In a render that crosses a year boundary, each option with a rate \<open>r \<ge> 0\<close> and a
  draw \<open>u\<close> in [0, 1) gets the rate \<open>max(0, r * (1 + (u - 0.5) * 0.2))\<close>, which lies
  between \<open>0.9 * r\<close> and \<open>1.1 * r\<close> and is not negative; the option keeps its asset and
  the list its length. Nothing else changes a rate: a render that crosses no boundary
  leaves the options as they are, and so does the effect at the end of the game.
\<close>

theorem rate_perturbation:
  assumes "currentYear l < yr" "i < length (investmentOptions l)"
    "0 \<le> baseReturnRate (investmentOptions l ! i)" "0 \<le> randoms k i" "randoms k i < 1"
  shows "baseReturnRate (investmentOptions (snd (yearEffect randoms yr (k, l))) ! i) =
           max 0 (baseReturnRate (investmentOptions l ! i) * (1 + (randoms k i - 0.5) * 0.2))
     \<and> 0.9 * baseReturnRate (investmentOptions l ! i)
         \<le> baseReturnRate (investmentOptions (snd (yearEffect randoms yr (k, l))) ! i)
     \<and> baseReturnRate (investmentOptions (snd (yearEffect randoms yr (k, l))) ! i)
         \<le> 1.1 * baseReturnRate (investmentOptions l ! i)
     \<and> 0 \<le> baseReturnRate (investmentOptions (snd (yearEffect randoms yr (k, l))) ! i)
     \<and> asset (investmentOptions (snd (yearEffect randoms yr (k, l))) ! i)
         = asset (investmentOptions l ! i)
     \<and> length (investmentOptions (snd (yearEffect randoms yr (k, l))))
         = length (investmentOptions l)
     \<and> (yr' \<le> currentYear l \<longrightarrow>
          investmentOptions (snd (yearEffect randoms yr' (k, l))) = investmentOptions l)
     \<and> investmentOptions (fst (gameOverEffect user now s (l, ls))) = investmentOptions l"
proof -
  have step: "snd (yearEffect randoms yr (k, l)) =
      (updateInvestmentRates (randoms k) l)\<lparr>currentYear := yr\<rparr>"
    using assms(1) by (simp add: yearEffect_def)
  have new: "baseReturnRate (investmentOptions (snd (yearEffect randoms yr (k, l))) ! i) =
      max 0 (baseReturnRate (investmentOptions l ! i) * (1 + (randoms k i - 0.5) * 0.2))"
    by (simp add: step updated_rate [OF assms(2)])
  have same_asset: "asset (investmentOptions (snd (yearEffect randoms yr (k, l))) ! i)
      = asset (investmentOptions l ! i)"
    by (simp add: step updated_rate [OF assms(2)])
  have same_length: "length (investmentOptions (snd (yearEffect randoms yr (k, l))))
      = length (investmentOptions l)"
    by (simp add: step updateInvestmentRates_def)
  have idle: "yr' \<le> currentYear l \<longrightarrow>
      investmentOptions (snd (yearEffect randoms yr' (k, l))) = investmentOptions l"
    by (simp add: yearEffect_def)
  note b = perturbation_bounds [OF assms(3) assms(4) assms(5)]
  have nonneg: "0 \<le> max 0 (baseReturnRate (investmentOptions l ! i) * (1 + (randoms k i - 0.5) * 0.2))"
    by simp
  show ?thesis
    using new same_asset same_length idle b nonneg gameOverEffect_rates [of user now s l ls]
    by (simp only: simp_thms)
qed

text \<open>
  At the first boundary the savings rate of 4, with the draw 1/4, becomes 3.8.
\<close>

theorem rate_perturbation_witness:
  "baseReturnRate (investmentOptions (snd (yearEffect (\<lambda>k i. 1 / 4) 1 (0, initialLocal))) ! 0)
      = 38 / 10
   \<and> asset (investmentOptions (snd (yearEffect (\<lambda>k i. 1 / 4) 1 (0, initialLocal))) ! 0)
      = ''savings''
   \<and> length (investmentOptions (snd (yearEffect (\<lambda>k i. 1 / 4) 1 (0, initialLocal)))) = 4
   \<and> investmentOptions (snd (yearEffect (\<lambda>k i. 1 / 4) 0 (0, initialLocal)))
      = baseInvestmentOptions"
proof -
  have cy: "currentYear initialLocal < 1" "(0::int) \<le> currentYear initialLocal"
    by (simp_all add: initialLocal_def)
  have opts: "investmentOptions initialLocal = baseInvestmentOptions"
    by (simp add: initialLocal_def)
  have i: "0 < length (investmentOptions initialLocal)"
    by (simp add: opts baseInvestmentOptions_def)
  have r: "baseReturnRate (investmentOptions initialLocal ! 0) = 4"
    "asset (investmentOptions initialLocal ! 0) = ''savings''"
    "length (investmentOptions initialLocal) = 4"
    by (simp_all add: opts baseInvestmentOptions_def)
  have r0: "0 \<le> baseReturnRate (investmentOptions initialLocal ! 0)"
    by (simp add: r)
  have u: "(0::real) \<le> (\<lambda>k i. 1 / 4) (0::nat) (0::nat)" "(\<lambda>k i. 1 / 4) (0::nat) (0::nat) < (1::real)"
    by simp_all
  from rate_perturbation [OF cy(1) i r0 u, of 0] cy(2) r opts
  show ?thesis by simp
qed

section \<open>The end of the game\<close>

lemma gameOverEffects_shown:
  "showGameOverModal l \<Longrightarrow> gameOverEffects user renders (l, ls) = (l, ls)"
  by (induction renders) (auto simp add: gameOverEffect_def)

lemma gameOverEffects_signed_out:
  "snd (gameOverEffects None renders (l, ls)) = ls"
  by (induction renders arbitrary: l) (auto simp add: gameOverEffect_def saveGameResults_def)

lemma saveGameResults_appends:
  assumes "\<not> setItemThrows ls" "existingResults (items ls (''gameResults_'' @ uid)) = Some old"
  shows "fst (saveGameResults (Some uid) now s ls) =
           ls\<lparr>items := (items ls)(''gameResults_'' @ uid \<mapsto> Results (old @
              [\<lparr> userId = uid, date = now, playerScore = netWorth s, aiScore = aiNetWorth s,
                 result = (if netWorth s > aiNetWorth s then ''win'' else ''loss''),
                 difficulty = Store.difficulty s \<rparr>]))\<rparr>"
  using assms by (simp add: saveGameResults_def Let_def)

lemma gameOverEffects_signed_in:
  assumes "\<not> showGameOverModal l" "\<not> setItemThrows ls"
    "existingResults (items ls (''gameResults_'' @ uid)) = Some old"
  shows "existingResults (items (snd (gameOverEffects (Some uid) renders (l, ls)))
                             (''gameResults_'' @ uid)) =
           Some (old @
             (case find (\<lambda>(now, s). isGameOver s) renders of
                None \<Rightarrow> []
              | Some (now, s) \<Rightarrow>
                  [\<lparr> userId = uid, date = now, playerScore = netWorth s, aiScore = aiNetWorth s,
                     result = (if netWorth s > aiNetWorth s then ''win'' else ''loss''),
                     difficulty = Store.difficulty s \<rparr>]))"
  using assms
proof (induction renders)
  case Nil
  then show ?case by simp
next
  case (Cons render renders)
  obtain now s where render: "render = (now, s)" by (cases render)
  show ?case
  proof (cases "isGameOver s")
    case True
    then have "gameOverEffect (Some uid) now s (l, ls) =
        (l\<lparr>showGameOverModal := True\<rparr>, fst (saveGameResults (Some uid) now s ls))"
      using Cons.prems by (simp add: gameOverEffect_def)
    then show ?thesis
      using True Cons.prems
      by (simp add: render gameOverEffects_shown saveGameResults_appends)
  next
    case False
    then have "gameOverEffect (Some uid) now s (l, ls) = (l, ls)"
      by (simp add: gameOverEffect_def)
    then show ?thesis
      using False Cons by (simp add: render)
  qed
qed

text \<open>
  C8, as the code has it. For a signed-in user whose storage accepts the write and holds
  an array (or nothing) under the user's key: over any run of renders that starts with
  the game-over window closed, exactly one record is appended if some render sees the
  game-over flag, in the first such render, and none otherwise. The record holds the
  user, the time, the player's net worth as the player's score, the AI's net worth as the
  AI's score, the difficulty, and the outcome, which is a win exactly when the player's
  net worth is greater than the AI's. For a user who is not signed in the storage is
  left as it is.
\<close>

theorem game_result_saved_once:
  assumes "\<not> showGameOverModal l" "\<not> setItemThrows ls"
    "existingResults (items ls (''gameResults_'' @ uid)) = Some old"
  shows "existingResults (items (snd (gameOverEffects (Some uid) renders (l, ls)))
                             (''gameResults_'' @ uid)) =
           Some (old @
             (case find (\<lambda>(now, s). isGameOver s) renders of
                None \<Rightarrow> []
              | Some (now, s) \<Rightarrow>
                  [\<lparr> userId = uid, date = now, playerScore = netWorth s, aiScore = aiNetWorth s,
                     result = (if netWorth s > aiNetWorth s then ''win'' else ''loss''),
                     difficulty = Store.difficulty s \<rparr>]))
     \<and> snd (gameOverEffects None renders (l, ls)) = ls"
  using gameOverEffects_signed_in [OF assms] gameOverEffects_signed_out [of renders l ls]
  by (rule conjI)

text \<open>
  Three renders, the last two with the game over at 120000 against 100000: one record,
  a win, with the time of the second render.
\<close>

theorem game_result_saved_once_witness:
  "existingResults
     (items (snd (gameOverEffects (Some ''u1'')
                    [(''t0'', emptyStore), (''t1'', finishedStore), (''t2'', finishedStore)]
                    (initialLocal, emptyStorage)))
        ''gameResults_u1'') =
     Some [\<lparr> userId = ''u1'', date = ''t1'', playerScore = 120000, aiScore = 100000,
             result = ''win'', difficulty = ''easy'' \<rparr>]"
proof -
  have closed: "\<not> showGameOverModal initialLocal"
    by (simp add: initialLocal_def)
  have accepts: "\<not> setItemThrows emptyStorage"
    by (simp add: emptyStorage_def)
  have vacant: "existingResults (items emptyStorage (''gameResults_'' @ ''u1'')) = Some []"
    by (simp add: emptyStorage_def)
  have fields: "\<not> isGameOver emptyStore" "isGameOver finishedStore"
    "netWorth finishedStore = 120000" "aiNetWorth finishedStore = 100000"
    "Store.difficulty finishedStore = ''easy''"
    by (simp_all add: finishedStore_def emptyStore_def)
  from game_result_saved_once [OF closed accepts vacant,
         where renders = "[(''t0'', emptyStore), (''t1'', finishedStore), (''t2'', finishedStore)]"]
  show ?thesis by (simp add: fields)
qed

text \<open>
  The claim as it was stated fails for a player who is not signed in: the game is over,
  the window opens, and nothing is written.
\<close>

theorem signed_out_counterexample:
  "isGameOver finishedStore
   \<and> gameOverEffects None [(''t1'', finishedStore)] (initialLocal, emptyStorage)
       = (initialLocal\<lparr>showGameOverModal := True\<rparr>, emptyStorage)"
  by (simp add: gameOverEffect_def saveGameResults_def finishedStore_def emptyStore_def
        initialLocal_def)

end
